theory Spec2Isabelle
  imports Complex_Main "HOL-Library.Sublist"
begin

section \<open>JavaScript values\<close>

text \<open>
  The client is JavaScript, so every payload is a dynamically typed value. A number is
  \<open>NaN\<close>, one of the two infinities, or a finite binary64 value, held as the rational
  it denotes: \<open>Fin x\<close> stands for a number only when \<open>x\<close> is a double (\<open>is_double\<close>
  below), and arithmetic rounds its exact result to the nearest double. The negative zero
  is not told apart from zero. An object is the list of its own properties.
\<close>

datatype jsnum = NaN | PosInf | NegInf | Fin rat

datatype jsval =
    JUndefined
  | JNull
  | JBool bool
  | JNum jsnum
  | JStr string
  | JArr "jsval list"
  | JObj "(string \<times> jsval) list"

text \<open>A thrown \<open>Error\<close> object; the code only ever reads its \<open>message\<close>.\<close>

datatype exn = Error (message: string)

text \<open>
  Built-ins of the JavaScript engine that the code reaches through coercions and whose
  answers are texts of the engine's own: parsing a string as a number, printing a number,
  the wording of the \<open>TypeError\<close> raised by a property read on \<open>null\<close> or
  \<open>undefined\<close>, and the wording of the \<open>TypeError\<close> raised when an object cannot
  be converted to a primitive value. They are parameters of the model.
\<close>

record engine =
  StringToNumber :: "string \<Rightarrow> jsnum"
  NumberToString :: "jsnum \<Rightarrow> string"
  TypeError_message :: "jsval \<Rightarrow> string \<Rightarrow> string"
  ToPrimitive_message :: "jsval \<Rightarrow> string"

text \<open>\<open>ToBoolean\<close>: what \<open>!x\<close>, \<open>x && y\<close> and \<open>x || y\<close> test.\<close>

fun truthy :: "jsval \<Rightarrow> bool" where
  "truthy JUndefined = False"
| "truthy JNull = False"
| "truthy (JBool b) = b"
| "truthy (JNum n) = (n \<noteq> NaN \<and> n \<noteq> Fin 0)"
| "truthy (JStr s) = (s \<noteq> [])"
| "truthy (JArr xs) = True"
| "truthy (JObj kvs) = True"

text \<open>\<open>a || b\<close>\<close>

definition js_or :: "jsval \<Rightarrow> jsval \<Rightarrow> jsval" where
  "js_or a b = (if truthy a then a else b)"

text \<open>
  A default in a destructuring pattern or a parameter list (\<open>{ x = d }\<close>) applies only
  when the value is \<open>undefined\<close>; \<open>null\<close> is kept.
\<close>

definition default_to :: "jsval \<Rightarrow> jsval \<Rightarrow> jsval" where
  "default_to d v = (if v = JUndefined then d else v)"

text \<open>
  The property read \<open>v.k\<close>, for the property names this program reads (none of them
  is defined by a primitive wrapper or by \<open>Array.prototype\<close>): reading from
  \<open>undefined\<close> or \<open>null\<close> throws a \<open>TypeError\<close>, a missing property is
  \<open>undefined\<close>.
\<close>

fun get_prop :: "engine \<Rightarrow> jsval \<Rightarrow> string \<Rightarrow> exn + jsval" where
  "get_prop e JUndefined k = Inl (Error (TypeError_message e JUndefined k))"
| "get_prop e JNull k = Inl (Error (TypeError_message e JNull k))"
| "get_prop e (JObj kvs) k = Inr (case map_of kvs k of None \<Rightarrow> JUndefined | Some v \<Rightarrow> v)"
| "get_prop e v k = Inr JUndefined"

definition try_bind :: "exn + 'a \<Rightarrow> ('a \<Rightarrow> exn + 'b) \<Rightarrow> exn + 'b" where
  "try_bind m f = (case m of Inl err \<Rightarrow> Inl err | Inr v \<Rightarrow> f v)"

fun join_comma :: "string list \<Rightarrow> string" where
  "join_comma [] = []"
| "join_comma [s] = s"
| "join_comma (s # t # ss) = s @ '','' @ join_comma (t # ss)"

text \<open>The results of a run of conversions, up to the first that throws.\<close>

fun collect :: "(exn + 'a) list \<Rightarrow> exn + 'a list" where
  "collect [] = Inr []"
| "collect (Inl err # rs) = Inl err"
| "collect (Inr v # rs) = (case collect rs of Inl err \<Rightarrow> Inl err | Inr vs \<Rightarrow> Inr (v # vs))"

text \<open>
  \<open>String(v)\<close> and template interpolation. An array prints its elements in order,
  separated by commas, \<open>null\<close> and \<open>undefined\<close> elements as nothing. A plain object
  prints as \<open>[object Object]\<close> through the \<open>toString\<close> it inherits; when it has a
  property of its own called \<open>toString\<close>, which in parsed JSON is never a function,
  neither that nor \<open>valueOf\<close> yields a primitive and the conversion throws a
  \<open>TypeError\<close>.
\<close>

fun ToString :: "engine \<Rightarrow> jsval \<Rightarrow> exn + string" where
  "ToString e JUndefined = Inr ''undefined''"
| "ToString e JNull = Inr ''null''"
| "ToString e (JBool b) = Inr (if b then ''true'' else ''false'')"
| "ToString e (JNum n) = Inr (NumberToString e n)"
| "ToString e (JStr s) = Inr s"
| "ToString e (JArr xs) =
     try_bind
       (collect (map (\<lambda>x. if x = JUndefined \<or> x = JNull then Inr [] else ToString e x) xs))
       (\<lambda>parts. Inr (join_comma parts))"
| "ToString e (JObj kvs) =
     (case map_of kvs ''toString'' of
        None \<Rightarrow> Inr ''[object Object]''
      | Some v \<Rightarrow> Inl (Error (ToPrimitive_message e (JObj kvs))))"

text \<open>
  \<open>ToNumber\<close>, the coercion applied to the operands of \<open>*\<close>. An array or an object
  yields no primitive from \<open>valueOf\<close> and goes on to \<open>toString\<close>, so it converts
  exactly when \<open>String\<close> does, and then as that string.
\<close>

fun ToNumber :: "engine \<Rightarrow> jsval \<Rightarrow> exn + jsnum" where
  "ToNumber e JUndefined = Inr NaN"
| "ToNumber e JNull = Inr (Fin 0)"
| "ToNumber e (JBool b) = Inr (if b then Fin 1 else Fin 0)"
| "ToNumber e (JNum n) = Inr n"
| "ToNumber e (JStr s) = Inr (StringToNumber e s)"
| "ToNumber e (JArr xs) = try_bind (ToString e (JArr xs)) (\<lambda>s. Inr (StringToNumber e s))"
| "ToNumber e (JObj kvs) = try_bind (ToString e (JObj kvs)) (\<lambda>s. Inr (StringToNumber e s))"

subsection \<open>Binary64 arithmetic\<close>

text \<open>The number of binary digits of a natural number.\<close>

fun bit_length :: "nat \<Rightarrow> nat" where
  "bit_length n = (if n = 0 then 0 else Suc (bit_length (n div 2)))"

declare bit_length.simps [simp del]

definition pow2 :: "int \<Rightarrow> rat" where
  "pow2 k = (if 0 \<le> k then 2 ^ nat k else 1 / 2 ^ nat (- k))"

text \<open>For positive \<open>x\<close>, the exponent \<open>k\<close> with \<open>pow2 k \<le> x < pow2 (k + 1)\<close>.\<close>

definition ilog2 :: "rat \<Rightarrow> int" where
  "ilog2 x =
     (if 1 \<le> x then int (bit_length (nat \<lfloor>x\<rfloor>)) - 1
      else - int (bit_length (nat (\<lceil>1 / x\<rceil> - 1))))"

definition round_half_even :: "rat \<Rightarrow> int" where
  "round_half_even t =
     (let f = \<lfloor>t\<rfloor>; r = t - of_int f
      in if r < 1 / 2 then f else if 1 / 2 < r then f + 1 else if even f then f else f + 1)"

text \<open>
  Rounding an exact value to binary64, to nearest with ties to even: 53 significant
  bits at the value's exponent, the subnormal spacing below the least normal exponent,
  and an infinity when the rounded magnitude reaches 2 to the power 1024.
\<close>

definition binary64 :: "rat \<Rightarrow> jsnum" where
  "binary64 x =
     (if x = 0 then Fin 0
      else
        let e = max (ilog2 \<bar>x\<bar>) (- 1022);
            q = pow2 (e - 52);
            r = of_int (round_half_even (\<bar>x\<bar> / q)) * q
        in if pow2 1024 \<le> r then (if 0 < x then PosInf else NegInf)
           else Fin (if 0 < x then r else - r))"

definition is_double :: "rat \<Rightarrow> bool" where
  "is_double x = (binary64 x = Fin x)"

definition inf_times :: "bool \<Rightarrow> rat \<Rightarrow> jsnum" where
  "inf_times positive a =
     (if a = 0 then NaN else if (0 < a) = positive then PosInf else NegInf)"

text \<open>\<open>a * b\<close> on numbers: the exact product of two doubles, rounded to binary64.\<close>

fun js_times :: "jsnum \<Rightarrow> jsnum \<Rightarrow> jsnum" where
  "js_times NaN b = NaN"
| "js_times a NaN = NaN"
| "js_times (Fin a) (Fin b) = binary64 (a * b)"
| "js_times PosInf (Fin b) = inf_times True b"
| "js_times NegInf (Fin b) = inf_times False b"
| "js_times (Fin a) PosInf = inf_times True a"
| "js_times (Fin a) NegInf = inf_times False a"
| "js_times PosInf PosInf = PosInf"
| "js_times PosInf NegInf = NegInf"
| "js_times NegInf PosInf = NegInf"
| "js_times NegInf NegInf = PosInf"

text \<open>
  \<open>Math.round\<close>: the integer closest to the argument, the one closer to +\<infinity> when
  two are equally close. On a double the result is exact.
\<close>

fun Math_round :: "jsnum \<Rightarrow> jsnum" where
  "Math_round (Fin x) =
     Fin (of_int (if x - of_int \<lfloor>x\<rfloor> < 1 / 2 then \<lfloor>x\<rfloor> else \<lfloor>x\<rfloor> + 1))"
| "Math_round n = n"

section \<open>Result presenter\<close>

subsection \<open>SummaryGraph\<close>

text \<open>
  What \<open>SummaryGraph\<close> hands to the bar chart: the data object and the options
  (the colours and layout flags are left out). The multiplication throws when its
  operand cannot be converted to a number.
\<close>

record chart =
  labels :: "string list"
  dataset_label :: string
  dataset_data :: "jsnum list"
  x_min :: int
  x_max :: int
  title_text :: string

definition SummaryGraph :: "engine \<Rightarrow> jsval \<Rightarrow> exn + chart" where
  "SummaryGraph e riskScore_prop =
     (let riskScore = default_to (JNum (Fin 0)) riskScore_prop
      in try_bind (ToNumber e riskScore) (\<lambda>n.
           let percent = Math_round (js_times n (Fin 100))
           in Inr \<lparr> labels = [''Risk Score''],
                    dataset_label = ''Risk (%)'',
                    dataset_data = [percent],
                    x_min = 0,
                    x_max = 100,
                    title_text = ''Risk score: '' @ NumberToString e percent @ ''%'' \<rparr>))"

subsection \<open>ResultCard\<close>

text \<open>
  The tree of \<open>ResultCard\<close> as rendered: the children placed in the input-type,
  summary and call-outcome slots (raw values, as JSX receives them), the text of the
  risk flag, and the graph its child \<open>SummaryGraph\<close> renders from the property it is
  given. The expressions are evaluated in the order of the source, the child is rendered
  last, and the first exception thrown ends the rendering.
\<close>

record card =
  input_type_child :: jsval
  summary_child :: jsval
  risk_detected_text :: string
  call_outcome_child :: jsval
  graph :: chart

definition ResultCard :: "engine \<Rightarrow> jsval \<Rightarrow> exn + card option" where
  "ResultCard e data =
     (if \<not> truthy data then Inr None
      else
        try_bind (get_prop e data ''metadata'') (\<lambda>metadata0.
        try_bind (get_prop e data ''summary'') (\<lambda>summary0.
        try_bind (get_prop e data ''risk_analysis'') (\<lambda>risk_analysis0.
        try_bind (get_prop e data ''advanced_analysis'') (\<lambda>advanced_analysis0.
          let metadata = default_to (JObj []) metadata0;
              summary = default_to (JStr []) summary0;
              risk_analysis = default_to (JObj []) risk_analysis0;
              advanced_analysis = default_to (JObj []) advanced_analysis0
          in
            try_bind (get_prop e metadata ''input_type'') (\<lambda>input_type.
            try_bind (get_prop e risk_analysis ''risk_detected'') (\<lambda>risk_detected.
            try_bind (ToString e risk_detected) (\<lambda>risk_detected_string.
            try_bind (get_prop e advanced_analysis ''call_outcome'') (\<lambda>call_outcome.
            try_bind (get_prop e advanced_analysis ''risk_score'') (\<lambda>risk_score.
            try_bind (SummaryGraph e (js_or risk_score (JNum (Fin 0)))) (\<lambda>rendered_graph.
              Inr (Some \<lparr> input_type_child = input_type,
                          summary_child = summary,
                          risk_detected_text = risk_detected_string,
                          call_outcome_child = call_outcome,
                          graph = rendered_graph \<rparr>))))))))))))"

section \<open>Remote analysis client\<close>

text \<open>A \<open>File\<close> picked in the form: its name and its content.\<close>

record upload =
  file_name :: string
  file_bytes :: string

text \<open>One \<open>FormData.append\<close>: a text field, or a blob with its file name.\<close>

datatype form_entry = Field string string | FileField string upload string

record request =
  url :: string
  http_method :: string
  body :: "form_entry list"

text \<open>
  The \<open>Response\<close> that \<open>fetch\<close> resolves to: the status, and what the promises
  returned by \<open>res.text()\<close> and \<open>res.json()\<close> settle to (either may reject).
  \<open>res.ok\<close> is the status being in the range 200 to 299.
\<close>

record response =
  status :: nat
  text_result :: "exn + string"
  json_result :: "exn + jsval"

definition ok :: "response \<Rightarrow> bool" where
  "ok res = (200 \<le> status res \<and> status res \<le> 299)"

text \<open>How the promise returned by \<open>fetch\<close> settles.\<close>

datatype fetch_outcome = Rejected exn | Resolved response

text \<open>The decimal digits of a status code, as a template literal prints it.\<close>

definition digit_char :: "nat \<Rightarrow> char" where
  "digit_char d = ''0123456789'' ! d"

fun show_nat :: "nat \<Rightarrow> string" where
  "show_nat n =
     (if n < 10 then [digit_char n] else show_nat (n div 10) @ [digit_char (n mod 10)])"

declare show_nat.simps [simp del]

text \<open>The arguments of the \<open>fetch\<close> call.\<close>

definition analyzeFile_request :: "form_entry list \<Rightarrow> request" where
  "analyzeFile_request formData =
     \<lparr> url = ''http://localhost:8000/analyze'', http_method = ''POST'', body = formData \<rparr>"

text \<open>The \<open>catch\<close> block of \<open>analyzeFile\<close>.\<close>

definition analyzeFile_catch :: "exn \<Rightarrow> jsval" where
  "analyzeFile_catch err =
     JObj [(''error'', js_or (JStr (message err)) (JStr ''Network error''))]"

text \<open>
  \<open>analyzeFile\<close> from the point where the awaited \<open>fetch\<close> settles: the value its
  promise resolves to. It never rejects, every failure is caught.
\<close>

definition analyzeFile :: "fetch_outcome \<Rightarrow> jsval" where
  "analyzeFile outcome =
     (case outcome of
        Rejected err \<Rightarrow> analyzeFile_catch err
      | Resolved res \<Rightarrow>
          if \<not> ok res then
            (case text_result res of
               Inl err \<Rightarrow> analyzeFile_catch err
             | Inr text \<Rightarrow>
                 JObj [(''error'',
                        JStr (''Server returned status '' @ show_nat (status res) @ '': '' @ text))])
          else
            (case json_result res of
               Inl err \<Rightarrow> analyzeFile_catch err
             | Inr data \<Rightarrow> data))"

section \<open>Submission controller\<close>

subsection \<open>UploadForm\<close>

text \<open>The two state variables of the form, \<open>inputType\<close> and \<open>file\<close>.\<close>

record form =
  inputType :: string
  file_choice :: "upload option"

text \<open>
  The three callbacks handed to \<open>UploadForm\<close>, each an update of the host's state and
  each optional (\<open>onError && onError(...)\<close>).
\<close>

record 's callbacks =
  onStart :: "('s \<Rightarrow> 's) option"
  onResult :: "(jsval \<Rightarrow> 's \<Rightarrow> 's) option"
  onError :: "(jsval \<Rightarrow> 's \<Rightarrow> 's) option"

definition call0 :: "('s \<Rightarrow> 's) option \<Rightarrow> 's \<Rightarrow> 's" where
  "call0 cb s = (case cb of None \<Rightarrow> s | Some f \<Rightarrow> f s)"

definition call1 :: "(jsval \<Rightarrow> 's \<Rightarrow> 's) option \<Rightarrow> jsval \<Rightarrow> 's \<Rightarrow> 's" where
  "call1 cb x s = (case cb of None \<Rightarrow> s | Some f \<Rightarrow> f x s)"

text \<open>
  \<open>handleSubmit\<close> runs in two turns of the event loop. The first ends either at the
  early \<open>return\<close> of the validation or at the \<open>await\<close>, with the request handed to
  \<open>fetch\<close>. (\<open>e.preventDefault()\<close> only stops the browser from reloading the page.)
\<close>

datatype 's suspended = Returned 's | Awaiting request 's

definition handleSubmit_begin :: "'s callbacks \<Rightarrow> form \<Rightarrow> 's \<Rightarrow> 's suspended" where
  "handleSubmit_begin p f s =
     (case file_choice f of
        None \<Rightarrow> Returned (call1 (onError p) (JStr ''Please choose a file to upload'') s)
      | Some fl \<Rightarrow>
          (let s1 = call0 (onStart p) s;
               formData = [Field ''input_type'' (inputType f), FileField ''file'' fl (file_name fl)]
           in Awaiting (analyzeFile_request formData) s1))"

text \<open>
  The second turn starts when the request settles: the rest of the \<open>try\<close> block, and
  the \<open>catch\<close> for the \<open>TypeError\<close> of reading \<open>res.error\<close>.
\<close>

definition handleSubmit_resume :: "engine \<Rightarrow> 's callbacks \<Rightarrow> fetch_outcome \<Rightarrow> 's \<Rightarrow> 's" where
  "handleSubmit_resume e p outcome s =
     (let res = analyzeFile outcome
      in case get_prop e res ''error'' of
           Inr res_error \<Rightarrow>
             if truthy res_error then call1 (onError p) res_error s
             else call1 (onResult p) res s
         | Inl err \<Rightarrow>
             call1 (onError p) (js_or (JStr (message err)) (JStr ''Unknown error'')) s)"

subsection \<open>App\<close>

text \<open>
  The three state variables of \<open>App\<close>. A callback is one handler: its updates take
  effect together.
\<close>

record app =
  loading :: bool
  result :: jsval
  error :: jsval

definition App_init :: app where
  "App_init = \<lparr> loading = False, result = JNull, error = JNull \<rparr>"

definition App_onStart :: "app \<Rightarrow> app" where
  "App_onStart s = s\<lparr> loading := True, error := JNull, result := JNull \<rparr>"

definition App_onResult :: "jsval \<Rightarrow> app \<Rightarrow> app" where
  "App_onResult res s = s\<lparr> loading := False, result := res \<rparr>"

definition App_onError :: "jsval \<Rightarrow> app \<Rightarrow> app" where
  "App_onError err s = s\<lparr> loading := False, error := err \<rparr>"

definition App_callbacks :: "app callbacks" where
  "App_callbacks =
     \<lparr> onStart = Some App_onStart, onResult = Some App_onResult, onError = Some App_onError \<rparr>"

text \<open>
  What \<open>App\<close> renders below the form. \<open>x && element\<close> is the element when \<open>x\<close> is
  truthy and the falsy \<open>x\<close> itself otherwise.
\<close>

datatype 'a slot = Skipped jsval | Shown 'a

record view =
  loading_slot :: bool
  error_slot :: "jsval slot"
  result_slot :: "(exn + card option) slot"

definition App_render :: "engine \<Rightarrow> app \<Rightarrow> view" where
  "App_render e s =
     \<lparr> loading_slot = loading s,
       error_slot = (if truthy (error s) then Shown (error s) else Skipped (error s)),
       result_slot =
         (if truthy (result s) then Shown (ResultCard e (result s)) else Skipped (result s)) \<rparr>"

subsection \<open>The page as a state machine\<close>

text \<open>
  The page holds the form's state, the state of \<open>App\<close> and the requests still in
  flight. The user changes the inputs and submits; the network settles a request that is
  in flight, in any order. Each handler runs to its end before the next event.
\<close>

record session =
  form_state :: form
  app_state :: app
  in_flight :: "request list"

datatype event =
    SetInputType string
  | SetFile "upload option"
  | Submit
  | Settle nat fetch_outcome

definition session_init :: session where
  "session_init =
     \<lparr> form_state = \<lparr> inputType = ''text'', file_choice = None \<rparr>,
       app_state = App_init,
       in_flight = [] \<rparr>"

fun step :: "engine \<Rightarrow> session \<Rightarrow> event \<Rightarrow> session" where
  "step e \<sigma> (SetInputType t) = \<sigma>\<lparr> form_state := (form_state \<sigma>)\<lparr> inputType := t \<rparr> \<rparr>"
| "step e \<sigma> (SetFile f) = \<sigma>\<lparr> form_state := (form_state \<sigma>)\<lparr> file_choice := f \<rparr> \<rparr>"
| "step e \<sigma> Submit =
     (case handleSubmit_begin App_callbacks (form_state \<sigma>) (app_state \<sigma>) of
        Returned a \<Rightarrow> \<sigma>\<lparr> app_state := a \<rparr>
      | Awaiting req a \<Rightarrow> \<sigma>\<lparr> app_state := a, in_flight := in_flight \<sigma> @ [req] \<rparr>)"
| "step e \<sigma> (Settle i outcome) =
     (if i < length (in_flight \<sigma>) then
        \<sigma>\<lparr> app_state := handleSubmit_resume e App_callbacks outcome (app_state \<sigma>),
           in_flight := take i (in_flight \<sigma>) @ drop (Suc i) (in_flight \<sigma>) \<rparr>
      else \<sigma>)"

definition run :: "engine \<Rightarrow> event list \<Rightarrow> session" where
  "run e evs = foldl (step e) session_init evs"

section \<open>Vocabulary of the specification\<close>

text \<open>
  Rounding half up, in the words of the specification: the integer below the value
  plus one half. On numbers, \<open>NaN\<close> and the infinities are left as they are.
\<close>

definition round_half_up :: "rat \<Rightarrow> int" where
  "round_half_up x = \<lfloor>x + 1 / 2\<rfloor>"

fun rounded_half_up :: "jsnum \<Rightarrow> jsnum" where
  "rounded_half_up (Fin p) = Fin (of_int (round_half_up p))"
| "rounded_half_up n = n"

text \<open>
  The report payload of the specification's interface: an object in which each of the
  four top-level fields and each nested field is either missing or of its declared type.
\<close>

definition payload_field :: "jsval \<Rightarrow> string \<Rightarrow> jsval" where
  "payload_field v k =
     (case v of
        JObj kvs \<Rightarrow> (case map_of kvs k of None \<Rightarrow> JUndefined | Some w \<Rightarrow> w)
      | _ \<Rightarrow> JUndefined)"

fun is_object :: "jsval \<Rightarrow> bool" where
  "is_object (JObj kvs) = True"
| "is_object v = False"

fun is_string :: "jsval \<Rightarrow> bool" where
  "is_string (JStr s) = True"
| "is_string v = False"

fun is_boolean :: "jsval \<Rightarrow> bool" where
  "is_boolean (JBool b) = True"
| "is_boolean v = False"

fun is_number :: "jsval \<Rightarrow> bool" where
  "is_number (JNum n) = True"
| "is_number v = False"

definition optional :: "(jsval \<Rightarrow> bool) \<Rightarrow> jsval \<Rightarrow> bool" where
  "optional P v = (v = JUndefined \<or> P v)"

definition report_payload :: "jsval \<Rightarrow> bool" where
  "report_payload data =
     (is_object data \<and>
      optional (\<lambda>m. is_object m \<and> optional is_string (payload_field m ''input_type''))
        (payload_field data ''metadata'') \<and>
      optional is_string (payload_field data ''summary'') \<and>
      optional (\<lambda>r. is_object r \<and> optional is_boolean (payload_field r ''risk_detected''))
        (payload_field data ''risk_analysis'') \<and>
      optional (\<lambda>a. is_object a \<and> optional is_string (payload_field a ''call_outcome'') \<and>
                  optional is_number (payload_field a ''risk_score''))
        (payload_field data ''advanced_analysis''))"

text \<open>
  The overlap scenario of the specification: submission A starts, submission B starts
  before A has settled, B settles, then A settles. The second list is one submission
  on its own.
\<close>

definition overlapping :: "upload \<Rightarrow> upload \<Rightarrow> fetch_outcome \<Rightarrow> fetch_outcome \<Rightarrow> event list" where
  "overlapping fileA fileB outcomeA outcomeB =
     [SetFile (Some fileA), Submit, SetFile (Some fileB), Submit,
      Settle 1 outcomeB, Settle 0 outcomeA]"

definition alone :: "upload \<Rightarrow> fetch_outcome \<Rightarrow> event list" where
  "alone fl outcome = [SetFile (Some fl), Submit, Settle 0 outcome]"

text \<open>While \<open>loading\<close> is set, \<open>App\<close> holds neither a report nor an error.\<close>

definition quiet_while_loading :: "app \<Rightarrow> bool" where
  "quiet_while_loading a = (loading a \<longrightarrow> result a = JNull \<and> error a = JNull)"

section \<open>Worked examples\<close>

text \<open>
  An engine to run the examples with. It prints the integers and the three special
  numbers the way JavaScript prints them; the examples reach none of its other answers.
\<close>

definition example_engine :: engine where
  "example_engine =
     \<lparr> StringToNumber = (\<lambda>s. NaN),
       NumberToString =
         (\<lambda>n. case n of
                NaN \<Rightarrow> ''NaN''
              | PosInf \<Rightarrow> ''Infinity''
              | NegInf \<Rightarrow> ''-Infinity''
              | Fin x \<Rightarrow> if x < 0 then ''-'' @ show_nat (nat \<lfloor>- x\<rfloor>) else show_nat (nat \<lfloor>x\<rfloor>)),
       TypeError_message =
         (\<lambda>v k. ''Cannot read properties of '' @ (if v = JNull then ''null'' else ''undefined'')),
       ToPrimitive_message = (\<lambda>v. ''Cannot convert object to primitive value'') \<rparr>"

section \<open>Auxiliary facts\<close>

subsection \<open>Coercions and rounding\<close>

lemma truthy_js_or_message [simp]: "s \<noteq> [] \<Longrightarrow> truthy (js_or (JStr m) (JStr s))"
  by (simp add: js_or_def)

lemma floor_plus_half:
  "\<lfloor>y + 1 / 2\<rfloor> = (if y - of_int \<lfloor>y\<rfloor> < 1 / 2 then \<lfloor>y\<rfloor> else \<lfloor>y\<rfloor> + 1)" for y :: rat
proof (cases "y - of_int \<lfloor>y\<rfloor> < 1 / 2")
  case True
  have "of_int \<lfloor>y\<rfloor> \<le> y + 1 / 2" by linarith
  moreover have "y + 1 / 2 < of_int \<lfloor>y\<rfloor> + 1" using True by linarith
  ultimately have "\<lfloor>y + 1 / 2\<rfloor> = \<lfloor>y\<rfloor>" by (rule floor_unique)
  with True show ?thesis by simp
next
  case False
  have "of_int (\<lfloor>y\<rfloor> + 1) \<le> y + 1 / 2" using False by simp
  moreover have "y + 1 / 2 < of_int (\<lfloor>y\<rfloor> + 1) + 1" by simp linarith
  ultimately have "\<lfloor>y + 1 / 2\<rfloor> = \<lfloor>y\<rfloor> + 1" by (rule floor_unique)
  with False show ?thesis by simp
qed

lemma round_half_up_zero [simp]: "round_half_up 0 = 0"
  by (simp add: round_half_up_def floor_eq_iff)

lemma Math_round_is_rounded_half_up: "Math_round n = rounded_half_up n"
  by (cases n) (simp_all only: Math_round.simps rounded_half_up.simps round_half_up_def
      floor_plus_half)

lemma binary64_zero [simp]: "binary64 0 = Fin 0"
  by (simp add: binary64_def)

lemma floor_rat_numeral: "\<lfloor>numeral a / numeral b :: rat\<rfloor> = numeral a div numeral b"
  by (metis floor_divide_of_int_eq of_int_numeral)

lemma ceiling_rat_numeral: "\<lceil>numeral a / numeral b :: rat\<rceil> = - (- numeral a div numeral b)"
  by (metis ceiling_divide_eq_div of_int_numeral)

lemmas eval_binary64 = binary64_def is_double_def ilog2_def pow2_def round_half_even_def Let_def
  bit_length.simps floor_rat_numeral ceiling_rat_numeral

lemma show_nat_500: "show_nat 500 = ''500''"
  by (simp add: show_nat.simps digit_char_def)

subsection \<open>The presenter\<close>

lemma get_prop_payload:
  "is_object v \<Longrightarrow> get_prop e v k = Inr (payload_field v k)"
  by (cases v) (simp_all add: payload_field_def)

lemma default_to_payload:
  "optional P v \<Longrightarrow> (\<And>w. P w \<Longrightarrow> is_object w) \<Longrightarrow> is_object (default_to (JObj []) v)"
  by (auto simp: optional_def default_to_def)

lemma payload_field_default [simp]:
  "payload_field (default_to (JObj []) v) k = payload_field v k"
  by (simp add: default_to_def payload_field_def)

lemma ToString_flag:
  "optional is_boolean v \<Longrightarrow>
     ToString e v = Inr (if v = JBool True then ''true'' else if v = JBool False then ''false''
                         else ''undefined'')"
  by (cases v) (auto simp: optional_def)

lemma SummaryGraph_score:
  "optional is_number v \<Longrightarrow> \<exists>g. SummaryGraph e (js_or v (JNum (Fin 0))) = Inr g \<and>
     (v = JUndefined \<longrightarrow> dataset_data g = [Fin 0])"
  by (cases v) (auto simp: optional_def SummaryGraph_def js_or_def default_to_def try_bind_def Let_def)

lemma ResultCard_unfold:
  assumes "truthy data"
    and "get_prop e data ''metadata'' = Inr md"
    and "get_prop e data ''summary'' = Inr sm"
    and "get_prop e data ''risk_analysis'' = Inr ra"
    and "get_prop e data ''advanced_analysis'' = Inr aa"
    and "get_prop e (default_to (JObj []) md) ''input_type'' = Inr it"
    and "get_prop e (default_to (JObj []) ra) ''risk_detected'' = Inr rd"
    and "ToString e rd = Inr txt"
    and "get_prop e (default_to (JObj []) aa) ''call_outcome'' = Inr co"
    and "get_prop e (default_to (JObj []) aa) ''risk_score'' = Inr rs"
    and "SummaryGraph e (js_or rs (JNum (Fin 0))) = Inr g"
  shows "ResultCard e data =
     Inr (Some \<lparr> input_type_child = it,
                 summary_child = default_to (JStr []) sm,
                 risk_detected_text = txt,
                 call_outcome_child = co,
                 graph = g \<rparr>)"
  using assms by (simp add: ResultCard_def try_bind_def)

lemma ResultCard_graph:
  assumes "ResultCard e data = Inr (Some c)"
    and "get_prop e data ''advanced_analysis'' = Inr aa"
    and "get_prop e (default_to (JObj []) aa) ''risk_score'' = Inr rs"
  shows "SummaryGraph e (js_or rs (JNum (Fin 0))) = Inr (graph c)"
  using assms
  by (auto simp: ResultCard_def try_bind_def Let_def split: if_splits sum.splits)

lemma ResultCard_graph_eq:
  assumes "ResultCard e data = Inr (Some c)"
    and "get_prop e data ''advanced_analysis'' = Inr aa"
    and "get_prop e (default_to (JObj []) aa) ''risk_score'' = Inr rs"
    and "SummaryGraph e (js_or rs (JNum (Fin 0))) = Inr g"
  shows "graph c = g"
  using ResultCard_graph [OF assms(1-3)] assms(4) by simp

lemma ResultCard_risk_text:
  assumes "ResultCard e data = Inr (Some c)"
    and "get_prop e data ''risk_analysis'' = Inr ra"
    and "get_prop e (default_to (JObj []) ra) ''risk_detected'' = Inr rd"
  shows "ToString e rd = Inr (risk_detected_text c)"
  using assms
  by (auto simp: ResultCard_def try_bind_def Let_def split: if_splits sum.splits)

lemma SummaryGraph_zero:
  "SummaryGraph e (js_or JUndefined (JNum (Fin 0))) =
     Inr \<lparr> labels = [''Risk Score''], dataset_label = ''Risk (%)'', dataset_data = [Fin 0],
       x_min = 0, x_max = 100, title_text = ''Risk score: '' @ NumberToString e (Fin 0) @ ''%'' \<rparr>"
  by (simp add: SummaryGraph_def js_or_def default_to_def try_bind_def Let_def)


lemma SummaryGraph_number:
  "SummaryGraph e (js_or (JNum (Fin x)) (JNum (Fin 0))) =
     Inr \<lparr> labels = [''Risk Score''], dataset_label = ''Risk (%)'',
       dataset_data = [rounded_half_up (binary64 (x * 100))],
       x_min = 0, x_max = 100,
       title_text =
         ''Risk score: '' @ NumberToString e (rounded_half_up (binary64 (x * 100))) @ ''%'' \<rparr>"
proof (cases "x = 0")
  case True
  then show ?thesis
    by (simp add: SummaryGraph_def js_or_def default_to_def try_bind_def Let_def)
next
  case False
  then show ?thesis
    by (simp add: SummaryGraph_def js_or_def default_to_def try_bind_def Let_def
        Math_round_is_rounded_half_up del: Math_round.simps)
qed

lemma SummaryGraph_prop:
  "SummaryGraph e (JNum (Fin y)) =
     Inr \<lparr> labels = [''Risk Score''], dataset_label = ''Risk (%)'',
       dataset_data = [rounded_half_up (binary64 (y * 100))],
       x_min = 0, x_max = 100,
       title_text =
         ''Risk score: '' @ NumberToString e (rounded_half_up (binary64 (y * 100))) @ ''%'' \<rparr>"
  "SummaryGraph e JUndefined =
     Inr \<lparr> labels = [''Risk Score''], dataset_label = ''Risk (%)'', dataset_data = [Fin 0],
       x_min = 0, x_max = 100, title_text = ''Risk score: '' @ NumberToString e (Fin 0) @ ''%'' \<rparr>"
  by (simp_all add: SummaryGraph_def default_to_def try_bind_def Let_def
      Math_round_is_rounded_half_up del: Math_round.simps)

lemmas eval_card = ResultCard_def try_bind_def default_to_def js_or_def SummaryGraph_def Let_def
  example_engine_def show_nat.simps digit_char_def

subsection \<open>The remote call\<close>

lemma get_prop_catch [simp]:
  "get_prop e (analyzeFile_catch err) ''error'' =
     Inr (js_or (JStr (message err)) (JStr ''Network error''))"
  by (simp add: analyzeFile_catch_def)

lemma analyzeFile_catch_shape:
  "analyzeFile_catch err =
     JObj [(''error'', JStr (if message err = [] then ''Network error'' else message err))]"
  by (simp add: analyzeFile_catch_def js_or_def)

lemma analyzeFile_parsed:
  "ok res \<Longrightarrow> json_result res = Inr data \<Longrightarrow> analyzeFile (Resolved res) = data"
  by (simp add: analyzeFile_def)

lemma sublist_middle: "sublist ys (xs @ ys @ zs)"
  by (rule sublist_appendI)

lemma sublist_last: "sublist zs (ws @ xs @ ys @ zs)"
  unfolding sublist_def by (rule exI [of _ "ws @ xs @ ys"], rule exI [of _ "[]"]) simp

subsection \<open>The controller\<close>

lemma resume_error_field:
  assumes "ok res" and "json_result res = Inr data"
    and "get_prop e data ''error'' = Inr v" and "truthy v"
  shows "handleSubmit_resume e p (Resolved res) s = call1 (onError p) v s"
  using assms by (simp add: handleSubmit_resume_def analyzeFile_parsed)

text \<open>
  Whatever the request settles to, the second turn of \<open>handleSubmit\<close> ends in exactly
  one callback of \<open>App\<close>, and an error it reports is truthy.
\<close>

lemma resume_App_cases:
  "(\<exists>v. truthy v \<and> (\<forall>s. handleSubmit_resume e App_callbacks outcome s = App_onError v s)) \<or>
   (\<exists>r. \<forall>s. handleSubmit_resume e App_callbacks outcome s = App_onResult r s)"
proof (cases "get_prop e (analyzeFile outcome) ''error''")
  case (Inl err)
  then have "\<forall>s. handleSubmit_resume e App_callbacks outcome s =
      App_onError (js_or (JStr (message err)) (JStr ''Unknown error'')) s"
    by (simp add: handleSubmit_resume_def call1_def App_callbacks_def)
  moreover have "truthy (js_or (JStr (message err)) (JStr ''Unknown error''))"
    by simp
  ultimately show ?thesis by blast
next
  case (Inr v)
  show ?thesis
  proof (cases "truthy v")
    case True
    with Inr have "\<forall>s. handleSubmit_resume e App_callbacks outcome s = App_onError v s"
      by (simp add: handleSubmit_resume_def call1_def App_callbacks_def)
    with True show ?thesis by blast
  next
    case False
    with Inr have "\<forall>s. handleSubmit_resume e App_callbacks outcome s =
        App_onResult (analyzeFile outcome) s"
      by (simp add: handleSubmit_resume_def call1_def App_callbacks_def)
    then show ?thesis by blast
  qed
qed

lemma resume_not_loading: "\<not> loading (handleSubmit_resume e App_callbacks outcome s)"
  using resume_App_cases [of e outcome]
  by (auto simp: App_onError_def App_onResult_def)

lemma step_quiet:
  "quiet_while_loading (app_state \<sigma>) \<Longrightarrow> quiet_while_loading (app_state (step e \<sigma> ev))"
proof (cases ev)
  case Submit
  then show ?thesis
    by (cases "file_choice (form_state \<sigma>)")
      (simp_all add: quiet_while_loading_def handleSubmit_begin_def call0_def call1_def
        App_callbacks_def App_onStart_def App_onError_def)
next
  case (Settle i outcome)
  assume "quiet_while_loading (app_state \<sigma>)"
  with Settle show ?thesis
    by (simp add: quiet_while_loading_def resume_not_loading)
qed (simp_all add: quiet_while_loading_def)

lemma run_snoc: "run e (evs @ [ev]) = step e (run e evs) ev"
  by (simp add: run_def)

lemma run_quiet: "quiet_while_loading (app_state (run e evs))"
proof (induction evs rule: rev_induct)
  case Nil
  show ?case by (simp add: run_def session_init_def App_init_def quiet_while_loading_def)
next
  case (snoc ev evs)
  then show ?case by (simp add: run_snoc step_quiet)
qed

lemma submitting_state:
  "App_onStart s = \<lparr> loading = True, result = JNull, error = JNull \<rparr>"
  by (simp add: App_onStart_def)

lemma run_alone:
  "app_state (run e (alone fl outcome)) =
     handleSubmit_resume e App_callbacks outcome
       \<lparr> loading = True, result = JNull, error = JNull \<rparr>"
  by (simp add: run_def alone_def session_init_def handleSubmit_begin_def call0_def
      App_callbacks_def submitting_state)

lemma run_overlapping:
  "app_state (run e (overlapping fileA fileB outcomeA outcomeB)) =
     handleSubmit_resume e App_callbacks outcomeA
       (handleSubmit_resume e App_callbacks outcomeB
          \<lparr> loading = True, result = JNull, error = JNull \<rparr>)"
  by (simp add: run_def overlapping_def session_init_def handleSubmit_begin_def call0_def
      App_callbacks_def submitting_state)

section \<open>Validation of the submission\<close>

text \<open>
  Claim C1. When the form holds no file, \<open>handleSubmit\<close> returns after calling only
  \<open>onError\<close> with the validation message, whatever the callbacks are: \<open>onStart\<close> is
  not called and nothing is handed to \<open>fetch\<close>. On the page, the message becomes the
  error of \<open>App\<close>, no request is added to those in flight, and \<open>loading\<close> is false
  afterwards.
\<close>

theorem handleSubmit_without_file:
  "file_choice (form_state \<sigma>) = None \<Longrightarrow>
     (\<forall>p s. handleSubmit_begin p (form_state \<sigma>) s =
        Returned (call1 (onError p) (JStr ''Please choose a file to upload'') s)) \<and>
     app_state (step e \<sigma> Submit) =
        (app_state \<sigma>)\<lparr> loading := False, error := JStr ''Please choose a file to upload'' \<rparr> \<and>
     in_flight (step e \<sigma> Submit) = in_flight \<sigma> \<and>
     \<not> loading (app_state (step e \<sigma> Submit))"
  by (simp add: handleSubmit_begin_def call1_def App_callbacks_def App_onError_def)

theorem handleSubmit_without_file_witness:
  "file_choice (form_state session_init) = None \<and>
   handleSubmit_begin App_callbacks (form_state session_init) App_init =
     Returned \<lparr> loading = False, result = JNull, error = JStr ''Please choose a file to upload'' \<rparr> \<and>
   step example_engine session_init Submit =
     session_init\<lparr> app_state :=
       \<lparr> loading = False, result = JNull, error = JStr ''Please choose a file to upload'' \<rparr> \<rparr> \<and>
   in_flight (step example_engine session_init Submit) = []"
proof -
  have h: "file_choice (form_state session_init) = None"
    by (simp add: session_init_def)
  from handleSubmit_without_file [OF h, of example_engine] show ?thesis
    using h
    by (simp add: session_init_def App_init_def call1_def App_callbacks_def App_onError_def
        handleSubmit_begin_def)
qed

section \<open>The presenter and missing fields\<close>

text \<open>
  Claim C2, as stated, fails: not every missing field is given a default. With
  \<open>metadata.input_type\<close>, \<open>risk_analysis\<close> and \<open>advanced_analysis.call_outcome\<close>
  missing, the two text slots hold \<open>undefined\<close>, not the empty string, and the risk
  flag prints as \<open>undefined\<close>, not as \<open>false\<close>.
\<close>

theorem missing_text_fields_stay_undefined:
  "ResultCard example_engine
     (JObj [(''metadata'', JObj []), (''summary'', JStr ''All good''),
            (''advanced_analysis'', JObj [(''risk_score'', JNum (Fin (1 / 2)))])]) =
     Inr (Some \<lparr> input_type_child = JUndefined, summary_child = JStr ''All good'',
                 risk_detected_text = ''undefined'', call_outcome_child = JUndefined,
                 graph = \<lparr> labels = [''Risk Score''], dataset_label = ''Risk (%)'',
                           dataset_data = [Fin 50], x_min = 0, x_max = 100,
                           title_text = ''Risk score: 50%'' \<rparr> \<rparr>) \<and>
   JUndefined \<noteq> JStr [] \<and> ''undefined'' \<noteq> ''false''"
  by (simp add: eval_card eval_binary64)

text \<open>
  Claim C2, amended. For every report payload, whichever of its fields and nested fields
  are missing, \<open>ResultCard\<close> throws nothing and returns a card. A missing \<open>summary\<close>
  is the empty string and a missing \<open>risk_score\<close> the number 0; a missing
  \<open>input_type\<close> or \<open>call_outcome\<close> stays \<open>undefined\<close> and a missing
  \<open>risk_detected\<close> prints as \<open>undefined\<close>. A nested field counts as missing also
  when the object that would hold it is missing.
\<close>

theorem ResultCard_tolerates_missing_fields:
  assumes "report_payload data"
  shows "\<exists>c. ResultCard e data = Inr (Some c) \<and>
     (payload_field data ''summary'' = JUndefined \<longrightarrow> summary_child c = JStr []) \<and>
     (payload_field (payload_field data ''metadata'') ''input_type'' = JUndefined \<longrightarrow>
        input_type_child c = JUndefined) \<and>
     (payload_field (payload_field data ''risk_analysis'') ''risk_detected'' = JUndefined \<longrightarrow>
        risk_detected_text c = ''undefined'') \<and>
     (payload_field (payload_field data ''advanced_analysis'') ''call_outcome'' = JUndefined \<longrightarrow>
        call_outcome_child c = JUndefined) \<and>
     (payload_field (payload_field data ''advanced_analysis'') ''risk_score'' = JUndefined \<longrightarrow>
        dataset_data (graph c) = [Fin 0])"
proof -
  let ?md = "payload_field data ''metadata''"
  let ?ra = "payload_field data ''risk_analysis''"
  let ?aa = "payload_field data ''advanced_analysis''"
  let ?rd = "payload_field ?ra ''risk_detected''"
  let ?rs = "payload_field ?aa ''risk_score''"
  from assms have obj: "is_object data"
    and md: "optional (\<lambda>m. is_object m \<and> optional is_string (payload_field m ''input_type'')) ?md"
    and ra: "optional (\<lambda>r. is_object r \<and> optional is_boolean (payload_field r ''risk_detected'')) ?ra"
    and aa: "optional (\<lambda>a. is_object a \<and> optional is_string (payload_field a ''call_outcome'') \<and>
                  optional is_number (payload_field a ''risk_score'')) ?aa"
    by (simp_all add: report_payload_def)
  from obj have t: "truthy data" by (cases data) simp_all
  note top = get_prop_payload [OF obj, of e]
  have omd: "is_object (default_to (JObj []) ?md)"
    using md by (rule default_to_payload) simp
  have ora: "is_object (default_to (JObj []) ?ra)"
    using ra by (rule default_to_payload) simp
  have oaa: "is_object (default_to (JObj []) ?aa)"
    using aa by (rule default_to_payload) simp
  have flag: "optional is_boolean ?rd"
    using ra by (auto simp: optional_def payload_field_def)
  have score: "optional is_number ?rs"
    using aa by (auto simp: optional_def payload_field_def)
  from SummaryGraph_score [OF score, of e] obtain g where
    g: "SummaryGraph e (js_or ?rs (JNum (Fin 0))) = Inr g"
    and g0: "?rs = JUndefined \<longrightarrow> dataset_data g = [Fin 0]"
    by blast
  have f1: "get_prop e (default_to (JObj []) ?md) ''input_type'' =
      Inr (payload_field ?md ''input_type'')"
    by (simp add: get_prop_payload [OF omd])
  have f2: "get_prop e (default_to (JObj []) ?ra) ''risk_detected'' = Inr ?rd"
    by (simp add: get_prop_payload [OF ora])
  note f3 = ToString_flag [OF flag, of e]
  have f4: "get_prop e (default_to (JObj []) ?aa) ''call_outcome'' =
      Inr (payload_field ?aa ''call_outcome'')"
    by (simp add: get_prop_payload [OF oaa])
  have f5: "get_prop e (default_to (JObj []) ?aa) ''risk_score'' = Inr ?rs"
    by (simp add: get_prop_payload [OF oaa])
  have card: "ResultCard e data =
     Inr (Some \<lparr> input_type_child = payload_field ?md ''input_type'',
                 summary_child = default_to (JStr []) (payload_field data ''summary''),
                 risk_detected_text = (if ?rd = JBool True then ''true''
                    else if ?rd = JBool False then ''false'' else ''undefined''),
                 call_outcome_child = payload_field ?aa ''call_outcome'',
                 graph = g \<rparr>)"
    by (rule ResultCard_unfold [OF t top top top top f1 f2 f3 f4 f5 g])
  show ?thesis
    using g0 by (auto simp: card default_to_def)
qed

theorem ResultCard_tolerates_missing_fields_witness:
  "report_payload (JObj []) \<and>
   (\<exists>c. ResultCard example_engine (JObj []) = Inr (Some c) \<and>
      summary_child c = JStr [] \<and> input_type_child c = JUndefined \<and>
      risk_detected_text c = ''undefined'' \<and> call_outcome_child c = JUndefined \<and>
      dataset_data (graph c) = [Fin 0])"
proof -
  have h: "report_payload (JObj [])"
    by (simp add: report_payload_def optional_def payload_field_def)
  from ResultCard_tolerates_missing_fields [OF h, of example_engine]
  show ?thesis using h by (simp add: payload_field_def)
qed

section \<open>The risk percentage\<close>

text \<open>
  Claim C3. In every card that \<open>ResultCard\<close> returns for a payload whose
  \<open>advanced_analysis.risk_score\<close> is missing or a finite number, the percentage in
  the chart's data and title is the risk score times 100, the product JavaScript computes
  in binary64, rounded half up; a missing score counts as 0. No bound on the score is
  assumed, so nothing is clamped, and a product beyond the range of binary64 is shown as
  the infinity it is. \<open>SummaryGraph\<close> computes the same from its property, whose own
  default is 0.
\<close>

theorem risk_percent_is_round_half_up:
  assumes "ResultCard e data = Inr (Some c)"
    and "get_prop e data ''advanced_analysis'' = Inr aa"
    and "get_prop e (default_to (JObj []) aa) ''risk_score'' = Inr rs"
    and "rs = JUndefined \<and> x = 0 \<or> rs = JNum (Fin x)"
    and "is_double x"
  shows "dataset_data (graph c) = [rounded_half_up (js_times (Fin x) (Fin 100))] \<and>
     title_text (graph c) =
       ''Risk score: '' @ NumberToString e (rounded_half_up (js_times (Fin x) (Fin 100))) @ ''%'' \<and>
     js_times (Fin x) (Fin 100) = binary64 (x * 100) \<and>
     (binary64 (x * 100) = Fin p \<longrightarrow> dataset_data (graph c) = [Fin (of_int (round_half_up p))]) \<and>
     (\<exists>g. SummaryGraph e (JNum (Fin y)) = Inr g \<and>
          dataset_data g = [rounded_half_up (js_times (Fin y) (Fin 100))]) \<and>
     (\<exists>g. SummaryGraph e JUndefined = Inr g \<and> dataset_data g = [Fin 0])"
proof -
  note g = ResultCard_graph_eq [OF assms(1-3)]
  from assms(4) have main:
    "dataset_data (graph c) = [rounded_half_up (js_times (Fin x) (Fin 100))] \<and>
     title_text (graph c) =
       ''Risk score: '' @ NumberToString e (rounded_half_up (js_times (Fin x) (Fin 100))) @ ''%''"
  proof
    assume a: "rs = JUndefined \<and> x = 0"
    then have "graph c = \<lparr> labels = [''Risk Score''], dataset_label = ''Risk (%)'',
        dataset_data = [Fin 0], x_min = 0, x_max = 100,
        title_text = ''Risk score: '' @ NumberToString e (Fin 0) @ ''%'' \<rparr>"
      by (intro g) (simp add: SummaryGraph_zero)
    with a show ?thesis by simp
  next
    assume a: "rs = JNum (Fin x)"
    then have "graph c = \<lparr> labels = [''Risk Score''], dataset_label = ''Risk (%)'',
        dataset_data = [rounded_half_up (binary64 (x * 100))], x_min = 0, x_max = 100,
        title_text =
          ''Risk score: '' @ NumberToString e (rounded_half_up (binary64 (x * 100))) @ ''%'' \<rparr>"
      by (intro g) (simp add: SummaryGraph_number)
    then show ?thesis by simp
  qed
  then have "binary64 (x * 100) = Fin p \<longrightarrow>
      dataset_data (graph c) = [Fin (of_int (round_half_up p))]"
    by simp
  with main show ?thesis
    by (simp add: SummaryGraph_prop)
qed

theorem risk_percent_is_round_half_up_witness:
  "ResultCard example_engine
     (JObj [(''advanced_analysis'', JObj [(''risk_score'', JNum (Fin (3 / 2)))])]) =
     Inr (Some \<lparr> input_type_child = JUndefined, summary_child = JStr [],
                 risk_detected_text = ''undefined'', call_outcome_child = JUndefined,
                 graph = \<lparr> labels = [''Risk Score''], dataset_label = ''Risk (%)'',
                           dataset_data = [Fin 150], x_min = 0, x_max = 100,
                           title_text = ''Risk score: 150%'' \<rparr> \<rparr>) \<and>
   is_double (3 / 2) \<and>
   [Fin 150] = [rounded_half_up (js_times (Fin (3 / 2)) (Fin 100))] \<and>
   ResultCard example_engine
     (JObj [(''advanced_analysis'', JObj [(''risk_score'', JNum (Fin (1 / 2)))])]) =
     Inr (Some \<lparr> input_type_child = JUndefined, summary_child = JStr [],
                 risk_detected_text = ''undefined'', call_outcome_child = JUndefined,
                 graph = \<lparr> labels = [''Risk Score''], dataset_label = ''Risk (%)'',
                           dataset_data = [Fin 50], x_min = 0, x_max = 100,
                           title_text = ''Risk score: 50%'' \<rparr> \<rparr>) \<and>
   is_double (1 / 2) \<and>
   [Fin 50] = [rounded_half_up (js_times (Fin (1 / 2)) (Fin 100))] \<and>
   ResultCard example_engine (JObj [(''advanced_analysis'', JObj [])]) =
     Inr (Some \<lparr> input_type_child = JUndefined, summary_child = JStr [],
                 risk_detected_text = ''undefined'', call_outcome_child = JUndefined,
                 graph = \<lparr> labels = [''Risk Score''], dataset_label = ''Risk (%)'',
                           dataset_data = [Fin 0], x_min = 0, x_max = 100,
                           title_text = ''Risk score: 0%'' \<rparr> \<rparr>) \<and>
   [Fin 0] = [rounded_half_up (js_times (Fin 0) (Fin 100))] \<and>
   ResultCard example_engine
     (JObj [(''advanced_analysis'',
             JObj [(''risk_score'', JNum (Fin (1080863910568919 / 72057594037927936)))])]) =
     Inr (Some \<lparr> input_type_child = JUndefined, summary_child = JStr [],
                 risk_detected_text = ''undefined'', call_outcome_child = JUndefined,
                 graph = \<lparr> labels = [''Risk Score''], dataset_label = ''Risk (%)'',
                           dataset_data = [Fin 2], x_min = 0, x_max = 100,
                           title_text = ''Risk score: 2%'' \<rparr> \<rparr>) \<and>
   is_double (1080863910568919 / 72057594037927936) \<and>
   js_times (Fin (1080863910568919 / 72057594037927936)) (Fin 100) = Fin (3 / 2) \<and>
   [Fin 2] = [rounded_half_up (js_times (Fin (1080863910568919 / 72057594037927936)) (Fin 100))] \<and>
   ResultCard example_engine
     (JObj [(''advanced_analysis'', JObj [(''risk_score'', JNum (Fin 100000000000000001097906362944045541740492309677311846336810682903157585404911491537163328978494688899061249669721172515611590283743140088328307009198146046031271664502933027185697489699588559043338384466165001178426897626212945177628091195786707458122783970171784415105291802893207873272974885715430223118336))])]) =
     Inr (Some \<lparr> input_type_child = JUndefined, summary_child = JStr [],
                 risk_detected_text = ''undefined'', call_outcome_child = JUndefined,
                 graph = \<lparr> labels = [''Risk Score''], dataset_label = ''Risk (%)'',
                           dataset_data = [PosInf], x_min = 0, x_max = 100,
                           title_text = ''Risk score: Infinity%'' \<rparr> \<rparr>) \<and>
   is_double 100000000000000001097906362944045541740492309677311846336810682903157585404911491537163328978494688899061249669721172515611590283743140088328307009198146046031271664502933027185697489699588559043338384466165001178426897626212945177628091195786707458122783970171784415105291802893207873272974885715430223118336 \<and>
   [PosInf] = [rounded_half_up (js_times (Fin 100000000000000001097906362944045541740492309677311846336810682903157585404911491537163328978494688899061249669721172515611590283743140088328307009198146046031271664502933027185697489699588559043338384466165001178426897626212945177628091195786707458122783970171784415105291802893207873272974885715430223118336) (Fin 100))]"
proof -
  let ?big = "100000000000000001097906362944045541740492309677311846336810682903157585404911491537163328978494688899061249669721172515611590283743140088328307009198146046031271664502933027185697489699588559043338384466165001178426897626212945177628091195786707458122783970171784415105291802893207873272974885715430223118336 :: rat"
  let ?aa5 = "JObj [(''risk_score'', JNum (Fin ?big))]"
  let ?E = example_engine
  let ?d = "1080863910568919 / 72057594037927936 :: rat"
  let ?aa1 = "JObj [(''risk_score'', JNum (Fin (3 / 2)))]"
  let ?aa2 = "JObj [(''risk_score'', JNum (Fin (1 / 2)))]"
  let ?aa3 = "JObj []"
  let ?aa4 = "JObj [(''risk_score'', JNum (Fin ?d))]"
  let ?card = "\<lambda>g. \<lparr> input_type_child = JUndefined, summary_child = JStr [],
      risk_detected_text = ''undefined'', call_outcome_child = JUndefined, graph = g \<rparr>"
  let ?g = "\<lambda>n t. \<lparr> labels = [''Risk Score''], dataset_label = ''Risk (%)'',
      dataset_data = [Fin n], x_min = 0, x_max = 100, title_text = t \<rparr>"
  have top: "get_prop ?E (JObj [(''advanced_analysis'', aa)]) ''advanced_analysis'' = Inr aa"
    for aa
    by simp
  have c1: "ResultCard ?E (JObj [(''advanced_analysis'', ?aa1)]) =
      Inr (Some (?card (?g 150 ''Risk score: 150%'')))"
    by (simp add: eval_card eval_binary64)
  have c2: "ResultCard ?E (JObj [(''advanced_analysis'', ?aa2)]) =
      Inr (Some (?card (?g 50 ''Risk score: 50%'')))"
    by (simp add: eval_card eval_binary64)
  have c3: "ResultCard ?E (JObj [(''advanced_analysis'', ?aa3)]) =
      Inr (Some (?card (?g 0 ''Risk score: 0%'')))"
    by (simp add: eval_card eval_binary64)
  have c4: "ResultCard ?E (JObj [(''advanced_analysis'', ?aa4)]) =
      Inr (Some (?card (?g 2 ''Risk score: 2%'')))"
    by (simp add: eval_card eval_binary64)
  have n1: "get_prop ?E (default_to (JObj []) ?aa1) ''risk_score'' = Inr (JNum (Fin (3 / 2)))"
    and n2: "get_prop ?E (default_to (JObj []) ?aa2) ''risk_score'' = Inr (JNum (Fin (1 / 2)))"
    and n3: "get_prop ?E (default_to (JObj []) ?aa3) ''risk_score'' = Inr JUndefined"
    and n4: "get_prop ?E (default_to (JObj []) ?aa4) ''risk_score'' = Inr (JNum (Fin ?d))"
    by (simp_all add: default_to_def)
  have d1: "is_double (3 / 2)" and d2: "is_double (1 / 2)" and d3: "is_double 0"
    and d4: "is_double ?d"
    by (simp_all add: eval_binary64)
  have p4: "js_times (Fin ?d) (Fin 100) = Fin (3 / 2)"
    by (simp add: eval_binary64)
  have d5: "is_double ?big"
    by (simp add: eval_binary64)
  have p5: "js_times (Fin ?big) (Fin 100) = PosInf"
    by (simp add: eval_binary64)
  have c5: "ResultCard ?E (JObj [(''advanced_analysis'', ?aa5)]) =
      Inr (Some (?card \<lparr> labels = [''Risk Score''], dataset_label = ''Risk (%)'',
        dataset_data = [PosInf], x_min = 0, x_max = 100,
        title_text = ''Risk score: Infinity%'' \<rparr>))"
    by (simp add: eval_card p5 del: js_times.simps)
  have n5: "get_prop ?E (default_to (JObj []) ?aa5) ''risk_score'' = Inr (JNum (Fin ?big))"
    by (simp add: default_to_def)
  have t5: "[PosInf] = [rounded_half_up (js_times (Fin ?big) (Fin 100))]"
    using risk_percent_is_round_half_up [OF c5 top n5 _ d5, THEN conjunct1] by (simp add: p5 del: js_times.simps)
  have t1: "[Fin 150] = [rounded_half_up (js_times (Fin (3 / 2)) (Fin 100))]"
    using risk_percent_is_round_half_up [OF c1 top n1 _ d1, THEN conjunct1] by simp
  have t2: "[Fin 50] = [rounded_half_up (js_times (Fin (1 / 2)) (Fin 100))]"
    using risk_percent_is_round_half_up [OF c2 top n2 _ d2, THEN conjunct1] by simp
  have t3: "[Fin 0] = [rounded_half_up (js_times (Fin 0) (Fin 100))]"
    using risk_percent_is_round_half_up [OF c3 top n3 _ d3, THEN conjunct1] by simp
  have t4: "[Fin 2] = [rounded_half_up (js_times (Fin ?d) (Fin 100))]"
    using risk_percent_is_round_half_up [OF c4 top n4 _ d4, THEN conjunct1] by simp
  from c1 d1 t1 c2 d2 t2 c3 t3 c4 d4 p4 t4 c5 d5 t5 show ?thesis by blast
qed

section \<open>Failures of the remote call\<close>

text \<open>
  Claim C4. For a response whose status is outside 200 to 299 and whose body was read
  as text, \<open>analyzeFile\<close> returns an object whose \<open>error\<close> is one string,
  \<open>Server returned status\<close>, the decimal status, a colon and the body; the status
  digits and the body text both occur in it, and \<open>App\<close> ends with that string as its
  error and \<open>loading\<close> false.
\<close>

theorem analyzeFile_server_error:
  assumes "\<not> ok res" and "text_result res = Inr body_text"
  shows "\<exists>msg. analyzeFile (Resolved res) = JObj [(''error'', JStr msg)] \<and>
        msg = ''Server returned status '' @ show_nat (status res) @ '': '' @ body_text \<and>
        sublist (show_nat (status res)) msg \<and>
        sublist body_text msg \<and>
        handleSubmit_resume e App_callbacks (Resolved res) s =
          s\<lparr> loading := False, error := JStr msg \<rparr>"
proof -
  define msg where
    "msg = ''Server returned status '' @ show_nat (status res) @ '': '' @ body_text"
  have a: "analyzeFile (Resolved res) = JObj [(''error'', JStr msg)]"
    using assms by (simp add: analyzeFile_def msg_def)
  have t: "truthy (JStr msg)"
    by (simp add: msg_def)
  have r: "handleSubmit_resume e App_callbacks (Resolved res) s =
      s\<lparr> loading := False, error := JStr msg \<rparr>"
    using t by (simp add: handleSubmit_resume_def a call1_def App_callbacks_def App_onError_def)
  have s1: "sublist (show_nat (status res)) msg"
    unfolding msg_def by (rule sublist_middle)
  have s2: "sublist body_text msg"
    unfolding msg_def by (rule sublist_last)
  from a r s1 s2 show ?thesis
    using msg_def by blast
qed

theorem analyzeFile_server_error_witness:
  "\<not> ok \<lparr> status = 500, text_result = Inr ''internal error'',
          json_result = Inl (Error ''Unexpected token i'') \<rparr> \<and>
   analyzeFile (Resolved \<lparr> status = 500, text_result = Inr ''internal error'',
                           json_result = Inl (Error ''Unexpected token i'') \<rparr>)
     = JObj [(''error'', JStr ''Server returned status 500: internal error'')] \<and>
   sublist ''500'' ''Server returned status 500: internal error'' \<and>
   sublist ''internal error'' ''Server returned status 500: internal error'' \<and>
   handleSubmit_resume example_engine App_callbacks
     (Resolved \<lparr> status = 500, text_result = Inr ''internal error'',
                 json_result = Inl (Error ''Unexpected token i'') \<rparr>)
     \<lparr> loading = True, result = JNull, error = JNull \<rparr>
     = \<lparr> loading = False, result = JNull,
         error = JStr ''Server returned status 500: internal error'' \<rparr>"
proof -
  let ?res = "\<lparr> status = 500, text_result = Inr ''internal error'',
                 json_result = Inl (Error ''Unexpected token i'') \<rparr>"
  have h1: "\<not> ok ?res" by (simp add: ok_def)
  have h2: "text_result ?res = Inr ''internal error''" by simp
  from analyzeFile_server_error [OF h1 h2, of example_engine
      "\<lparr> loading = True, result = JNull, error = JNull \<rparr>"]
  show ?thesis using h1 by (simp add: show_nat_500)
qed

text \<open>
  Claim C5, as stated, fails: the result of \<open>analyzeFile\<close> records no kind of failure.
  A rejected \<open>fetch\<close> and a response with status 200 whose body does not parse give
  the very same object when the two errors carry the same message.
\<close>

theorem transport_and_parse_failure_coincide:
  "analyzeFile (Rejected (Error ''Unexpected end of JSON input'')) =
   analyzeFile (Resolved \<lparr> status = 200, text_result = Inr ''{'',
                           json_result = Inl (Error ''Unexpected end of JSON input'') \<rparr>)"
  by (simp add: analyzeFile_def ok_def)

text \<open>
  Claim C5, amended. Every failure comes back in one shape, an object whose \<open>error\<close>
  is a message string that is not empty: the thrown message, or \<open>Network error\<close> when
  it is empty, for a rejected \<open>fetch\<close>; the status line with the body for a status
  outside 200 to 299; and for a body that does not parse the same as for a rejected
  \<open>fetch\<close> with that error, since one \<open>catch\<close> handles both.
\<close>

theorem analyzeFile_failures_one_shape:
  "analyzeFile (Rejected err) =
     JObj [(''error'', JStr (if message err = [] then ''Network error'' else message err))] \<and>
   (\<not> ok res1 \<and> text_result res1 = Inr body_text \<longrightarrow>
      analyzeFile (Resolved res1) =
        JObj [(''error'',
               JStr (''Server returned status '' @ show_nat (status res1) @ '': '' @ body_text))]) \<and>
   (\<not> ok res1 \<longrightarrow> (\<exists>m. m \<noteq> [] \<and> analyzeFile (Resolved res1) = JObj [(''error'', JStr m)])) \<and>
   (ok res2 \<and> json_result res2 = Inl err \<longrightarrow>
      analyzeFile (Resolved res2) = analyzeFile (Rejected err))"
  by (auto simp: analyzeFile_def analyzeFile_catch_shape split: sum.splits)

theorem analyzeFile_failures_one_shape_witness:
  "\<not> ok \<lparr> status = 404, text_result = Inr ''Not Found'',
          json_result = Inl (Error ''Unexpected token N'') \<rparr> \<and>
   ok \<lparr> status = 200, text_result = Inr ''<html>'',
        json_result = Inl (Error ''Unexpected token <'') \<rparr> \<and>
   analyzeFile (Resolved \<lparr> status = 404, text_result = Inr ''Not Found'',
                           json_result = Inl (Error ''Unexpected token N'') \<rparr>) =
     JObj [(''error'', JStr ''Server returned status 404: Not Found'')] \<and>
   analyzeFile (Resolved \<lparr> status = 200, text_result = Inr ''<html>'',
                           json_result = Inl (Error ''Unexpected token <'') \<rparr>) =
     analyzeFile (Rejected (Error ''Unexpected token <'')) \<and>
   analyzeFile (Rejected (Error ''Unexpected token <'')) =
     JObj [(''error'', JStr ''Unexpected token <'')]"
proof -
  let ?r1 = "\<lparr> status = 404, text_result = Inr ''Not Found'',
                json_result = Inl (Error ''Unexpected token N'') \<rparr>"
  let ?r2 = "\<lparr> status = 200, text_result = Inr ''<html>'',
                json_result = Inl (Error ''Unexpected token <'') \<rparr>"
  note t = analyzeFile_failures_one_shape
    [of "Error ''Unexpected token <''" ?r1 "''Not Found''" ?r2]
  have h1: "\<not> ok ?r1" by (simp add: ok_def)
  have h2: "ok ?r2" by (simp add: ok_def)
  have d: "show_nat 404 = ''404''"
    by (simp add: show_nat.simps digit_char_def)
  have a1: "analyzeFile (Resolved ?r1) =
      JObj [(''error'', JStr ''Server returned status 404: Not Found'')]"
    using t h1 by (simp add: d)
  have a2: "analyzeFile (Resolved ?r2) = analyzeFile (Rejected (Error ''Unexpected token <''))"
    using t h2 by simp
  have a3: "analyzeFile (Rejected (Error ''Unexpected token <'')) =
      JObj [(''error'', JStr ''Unexpected token <'')]"
    using t by simp
  from h1 h2 a1 a2 a3 show ?thesis by blast
qed

section \<open>The states of the page\<close>

text \<open>
  Claim C6, as stated, fails: after a submission has succeeded, clearing the file and
  submitting again shows the validation message and still shows the old report.
\<close>

theorem validation_error_beside_old_report:
  "error_slot (App_render example_engine (app_state (run example_engine
      [SetFile (Some \<lparr> file_name = ''a.txt'', file_bytes = ''hello'' \<rparr>), Submit,
       Settle 0 (Resolved \<lparr> status = 200, text_result = Inr ''{\"summary\": \"All good\"}'',
                            json_result = Inr (JObj [(''summary'', JStr ''All good'')]) \<rparr>),
       SetFile None, Submit]))) = Shown (JStr ''Please choose a file to upload'') \<and>
   result_slot (App_render example_engine (app_state (run example_engine
      [SetFile (Some \<lparr> file_name = ''a.txt'', file_bytes = ''hello'' \<rparr>), Submit,
       Settle 0 (Resolved \<lparr> status = 200, text_result = Inr ''{\"summary\": \"All good\"}'',
                            json_result = Inr (JObj [(''summary'', JStr ''All good'')]) \<rparr>),
       SetFile None, Submit]))) =
     Shown (ResultCard example_engine (JObj [(''summary'', JStr ''All good'')]))"
  by (simp add: run_def session_init_def App_init_def handleSubmit_begin_def
      handleSubmit_resume_def analyzeFile_def ok_def call0_def call1_def
      App_callbacks_def App_onStart_def App_onResult_def App_onError_def App_render_def)

text \<open>
  Claim C6, amended. In every state the page can reach, while \<open>loading\<close> is set
  \<open>App\<close> holds neither a report nor an error, and shows neither. A report and an
  error are not exclusive: \<open>onError\<close> leaves the report where it is, and so does a
  submission without a file.
\<close>

theorem loading_excludes_report_and_error:
  "(loading (app_state (run e evs)) \<longrightarrow>
      result (app_state (run e evs)) = JNull \<and> error (app_state (run e evs)) = JNull) \<and>
   (loading_slot (App_render e (app_state (run e evs))) \<longrightarrow>
      error_slot (App_render e (app_state (run e evs))) = Skipped JNull \<and>
      result_slot (App_render e (app_state (run e evs))) = Skipped JNull) \<and>
   result (App_onError err s) = result s \<and>
   (file_choice (form_state \<sigma>) = None \<longrightarrow>
      result (app_state (step e \<sigma> Submit)) = result (app_state \<sigma>))"
  using run_quiet [of e evs]
  by (simp add: quiet_while_loading_def App_render_def App_onError_def handleSubmit_begin_def
      call1_def App_callbacks_def)

theorem loading_excludes_report_and_error_witness:
  "loading (app_state (run example_engine
      [SetFile (Some \<lparr> file_name = ''a.txt'', file_bytes = ''hello'' \<rparr>), Submit])) \<and>
   App_render example_engine (app_state (run example_engine
      [SetFile (Some \<lparr> file_name = ''a.txt'', file_bytes = ''hello'' \<rparr>), Submit])) =
     \<lparr> loading_slot = True, error_slot = Skipped JNull, result_slot = Skipped JNull \<rparr> \<and>
   file_choice (form_state
     \<lparr> form_state = \<lparr> inputType = ''text'', file_choice = None \<rparr>,
       app_state = \<lparr> loading = False, result = JObj [(''summary'', JStr ''All good'')],
                     error = JNull \<rparr>,
       in_flight = [] \<rparr>) = None \<and>
   result (app_state (step example_engine
     \<lparr> form_state = \<lparr> inputType = ''text'', file_choice = None \<rparr>,
       app_state = \<lparr> loading = False, result = JObj [(''summary'', JStr ''All good'')],
                     error = JNull \<rparr>,
       in_flight = [] \<rparr> Submit)) = JObj [(''summary'', JStr ''All good'')]"
proof -
  let ?evs = "[SetFile (Some \<lparr> file_name = ''a.txt'', file_bytes = ''hello'' \<rparr>), Submit]"
  let ?\<sigma> = "\<lparr> form_state = \<lparr> inputType = ''text'', file_choice = None \<rparr>,
       app_state = \<lparr> loading = False, result = JObj [(''summary'', JStr ''All good'')],
                     error = JNull \<rparr>,
       in_flight = [] \<rparr>"
  note t = loading_excludes_report_and_error [of example_engine ?evs _ _ ?\<sigma>]
  have h: "loading (app_state (run example_engine ?evs))"
    by (simp add: run_def session_init_def App_init_def handleSubmit_begin_def call0_def
        App_callbacks_def App_onStart_def)
  then have h': "loading_slot (App_render example_engine (app_state (run example_engine ?evs)))"
    by (simp add: App_render_def)
  have v: "App_render example_engine (app_state (run example_engine ?evs)) =
      \<lparr> loading_slot = True, error_slot = Skipped JNull, result_slot = Skipped JNull \<rparr>"
    using t h h'
    by (cases "App_render example_engine (app_state (run example_engine ?evs))") simp
  have f: "file_choice (form_state ?\<sigma>) = None"
    by simp
  have k: "result (app_state (step example_engine ?\<sigma> Submit)) = JObj [(''summary'', JStr ''All good'')]"
    using t f by simp
  from h v f k show ?thesis by blast
qed

section \<open>Starting a submission\<close>

text \<open>
  Claim C7. \<open>onStart\<close> takes every state of \<open>App\<close> to the one with \<open>loading\<close> true
  and neither report nor error; a submission with a file reaches its \<open>await\<close> in that
  state, whatever was held before.
\<close>

theorem onStart_resets_to_submitting:
  "App_onStart s = \<lparr> loading = True, result = JNull, error = JNull \<rparr> \<and>
   (file_choice f = Some u \<longrightarrow>
      (\<exists>req. handleSubmit_begin App_callbacks f s =
         Awaiting req \<lparr> loading = True, result = JNull, error = JNull \<rparr>))"
  by (simp add: App_onStart_def handleSubmit_begin_def call0_def App_callbacks_def)

theorem onStart_resets_to_submitting_witness:
  "file_choice \<lparr> inputType = ''audio'',
       file_choice = Some \<lparr> file_name = ''call.wav'', file_bytes = ''RIFF'' \<rparr> \<rparr>
     = Some \<lparr> file_name = ''call.wav'', file_bytes = ''RIFF'' \<rparr> \<and>
   (\<exists>req. handleSubmit_begin App_callbacks
       \<lparr> inputType = ''audio'',
         file_choice = Some \<lparr> file_name = ''call.wav'', file_bytes = ''RIFF'' \<rparr> \<rparr>
       \<lparr> loading = False, result = JObj [(''summary'', JStr ''old'')], error = JStr ''old error'' \<rparr>
     = Awaiting req \<lparr> loading = True, result = JNull, error = JNull \<rparr>)"
  using onStart_resets_to_submitting
    [of "\<lparr> loading = False, result = JObj [(''summary'', JStr ''old'')], error = JStr ''old error'' \<rparr>"
        "\<lparr> inputType = ''audio'',
           file_choice = Some \<lparr> file_name = ''call.wav'', file_bytes = ''RIFF'' \<rparr> \<rparr>"
        "\<lparr> file_name = ''call.wav'', file_bytes = ''RIFF'' \<rparr>"]
  by simp

section \<open>Overlapping submissions\<close>

text \<open>
  Claim C8, as stated, fails: when A succeeds after B has failed, the final state holds
  A's report and still shows B's error message; it is not the state that A alone leaves.
\<close>

theorem overlapping_shows_error_of_B:
  "app_state (run example_engine (overlapping
      \<lparr> file_name = ''a.txt'', file_bytes = ''first'' \<rparr>
      \<lparr> file_name = ''b.txt'', file_bytes = ''second'' \<rparr>
      (Resolved \<lparr> status = 200, text_result = Inr ''{\"summary\": \"A\"}'',
                  json_result = Inr (JObj [(''summary'', JStr ''A'')]) \<rparr>)
      (Resolved \<lparr> status = 500, text_result = Inr ''internal error'',
                  json_result = Inl (Error ''Unexpected token i'') \<rparr>))) =
     \<lparr> loading = False, result = JObj [(''summary'', JStr ''A'')],
       error = JStr ''Server returned status 500: internal error'' \<rparr> \<and>
   app_state (run example_engine (alone \<lparr> file_name = ''a.txt'', file_bytes = ''first'' \<rparr>
      (Resolved \<lparr> status = 200, text_result = Inr ''{\"summary\": \"A\"}'',
                  json_result = Inr (JObj [(''summary'', JStr ''A'')]) \<rparr>))) =
     \<lparr> loading = False, result = JObj [(''summary'', JStr ''A'')], error = JNull \<rparr> \<and>
   error_slot (App_render example_engine (app_state (run example_engine (overlapping
      \<lparr> file_name = ''a.txt'', file_bytes = ''first'' \<rparr>
      \<lparr> file_name = ''b.txt'', file_bytes = ''second'' \<rparr>
      (Resolved \<lparr> status = 200, text_result = Inr ''{\"summary\": \"A\"}'',
                  json_result = Inr (JObj [(''summary'', JStr ''A'')]) \<rparr>)
      (Resolved \<lparr> status = 500, text_result = Inr ''internal error'',
                  json_result = Inl (Error ''Unexpected token i'') \<rparr>))))) =
     Shown (JStr ''Server returned status 500: internal error'')"
  by (simp add: run_alone run_overlapping handleSubmit_resume_def analyzeFile_def ok_def
      call1_def App_callbacks_def App_onResult_def App_onError_def App_render_def show_nat_500)

text \<open>
  Claim C8, amended. When B starts before A has settled and A settles after B, A's
  completion is applied to the state B's completion left, with nothing telling the two
  apart: \<open>loading\<close> ends false and the field A writes holds A's outcome (the error
  if A failed, the report if A succeeded), while the other field keeps what B left. So
  the final state is the one A alone would leave only when B's outcome was of the same
  kind.
\<close>

theorem overlapping_last_completion_overwrites_its_field:
  "app_state (run e (overlapping fileA fileB outcomeA outcomeB)) =
     handleSubmit_resume e App_callbacks outcomeA (app_state (run e (alone fileB outcomeB))) \<and>
   \<not> loading (app_state (run e (overlapping fileA fileB outcomeA outcomeB))) \<and>
   (error (app_state (run e (alone fileA outcomeA))) \<noteq> JNull \<longrightarrow>
      error (app_state (run e (overlapping fileA fileB outcomeA outcomeB))) =
        error (app_state (run e (alone fileA outcomeA))) \<and>
      result (app_state (run e (overlapping fileA fileB outcomeA outcomeB))) =
        result (app_state (run e (alone fileB outcomeB)))) \<and>
   (error (app_state (run e (alone fileA outcomeA))) = JNull \<longrightarrow>
      result (app_state (run e (overlapping fileA fileB outcomeA outcomeB))) =
        result (app_state (run e (alone fileA outcomeA))) \<and>
      error (app_state (run e (overlapping fileA fileB outcomeA outcomeB))) =
        error (app_state (run e (alone fileB outcomeB))))"
proof -
  from resume_App_cases [of e outcomeA]
  consider (err) v where "truthy v"
      "\<forall>s. handleSubmit_resume e App_callbacks outcomeA s = App_onError v s"
    | (res) r where "\<forall>s. handleSubmit_resume e App_callbacks outcomeA s = App_onResult r s"
    by blast
  then show ?thesis
  proof cases
    case err
    then have "v \<noteq> JNull" by auto
    with err(2) show ?thesis
      by (simp add: run_alone run_overlapping App_onError_def)
  next
    case res
    then show ?thesis
      by (simp add: run_alone run_overlapping App_onResult_def)
  qed
qed

theorem overlapping_last_completion_overwrites_its_field_witness:
  "error (app_state (run example_engine (alone \<lparr> file_name = ''a.txt'', file_bytes = ''first'' \<rparr>
      (Resolved \<lparr> status = 200, text_result = Inr ''{\"summary\": \"A\"}'',
                  json_result = Inr (JObj [(''summary'', JStr ''A'')]) \<rparr>)))) = JNull \<and>
   app_state (run example_engine (overlapping
      \<lparr> file_name = ''a.txt'', file_bytes = ''first'' \<rparr>
      \<lparr> file_name = ''b.txt'', file_bytes = ''second'' \<rparr>
      (Resolved \<lparr> status = 200, text_result = Inr ''{\"summary\": \"A\"}'',
                  json_result = Inr (JObj [(''summary'', JStr ''A'')]) \<rparr>)
      (Resolved \<lparr> status = 200, text_result = Inr ''{\"summary\": \"B\"}'',
                  json_result = Inr (JObj [(''summary'', JStr ''B'')]) \<rparr>))) =
     \<lparr> loading = False, result = JObj [(''summary'', JStr ''A'')], error = JNull \<rparr> \<and>
   error (app_state (run example_engine (alone \<lparr> file_name = ''a.txt'', file_bytes = ''first'' \<rparr>
      (Rejected (Error ''Failed to fetch''))))) \<noteq> JNull \<and>
   app_state (run example_engine (overlapping
      \<lparr> file_name = ''a.txt'', file_bytes = ''first'' \<rparr>
      \<lparr> file_name = ''b.txt'', file_bytes = ''second'' \<rparr>
      (Rejected (Error ''Failed to fetch''))
      (Resolved \<lparr> status = 200, text_result = Inr ''{\"summary\": \"B\"}'',
                  json_result = Inr (JObj [(''summary'', JStr ''B'')]) \<rparr>))) =
     \<lparr> loading = False, result = JObj [(''summary'', JStr ''B'')],
       error = JStr ''Failed to fetch'' \<rparr>"
proof -
  let ?fa = "\<lparr> file_name = ''a.txt'', file_bytes = ''first'' \<rparr>"
  let ?fb = "\<lparr> file_name = ''b.txt'', file_bytes = ''second'' \<rparr>"
  let ?okA = "Resolved \<lparr> status = 200, text_result = Inr ''{\"summary\": \"A\"}'',
                  json_result = Inr (JObj [(''summary'', JStr ''A'')]) \<rparr>"
  let ?okB = "Resolved \<lparr> status = 200, text_result = Inr ''{\"summary\": \"B\"}'',
                  json_result = Inr (JObj [(''summary'', JStr ''B'')]) \<rparr>"
  let ?failA = "Rejected (Error ''Failed to fetch'')"
  have a1: "app_state (run example_engine (alone ?fa ?okA)) =
      \<lparr> loading = False, result = JObj [(''summary'', JStr ''A'')], error = JNull \<rparr>"
    by (simp add: run_alone handleSubmit_resume_def analyzeFile_def ok_def call1_def
        App_callbacks_def App_onResult_def)
  have b1: "app_state (run example_engine (alone ?fb ?okB)) =
      \<lparr> loading = False, result = JObj [(''summary'', JStr ''B'')], error = JNull \<rparr>"
    by (simp add: run_alone handleSubmit_resume_def analyzeFile_def ok_def call1_def
        App_callbacks_def App_onResult_def)
  have a2: "app_state (run example_engine (alone ?fa ?failA)) =
      \<lparr> loading = False, result = JNull, error = JStr ''Failed to fetch'' \<rparr>"
    by (simp add: run_alone handleSubmit_resume_def analyzeFile_def js_or_def call1_def
        App_callbacks_def App_onError_def)
  have n1: "\<not> loading (app_state (run example_engine (overlapping ?fa ?fb ?okA ?okB)))"
    and r1: "result (app_state (run example_engine (overlapping ?fa ?fb ?okA ?okB))) =
        JObj [(''summary'', JStr ''A'')]"
    and e1: "error (app_state (run example_engine (overlapping ?fa ?fb ?okA ?okB))) = JNull"
    using overlapping_last_completion_overwrites_its_field
        [of example_engine ?fa ?fb ?okA ?okB, THEN conjunct2]
    by (simp_all add: a1 b1)
  have n2: "\<not> loading (app_state (run example_engine (overlapping ?fa ?fb ?failA ?okB)))"
    and r2: "result (app_state (run example_engine (overlapping ?fa ?fb ?failA ?okB))) =
        JObj [(''summary'', JStr ''B'')]"
    and e2: "error (app_state (run example_engine (overlapping ?fa ?fb ?failA ?okB))) =
        JStr ''Failed to fetch''"
    using overlapping_last_completion_overwrites_its_field
        [of example_engine ?fa ?fb ?failA ?okB, THEN conjunct2]
    by (simp_all add: a2 b1)
  have s1: "app_state (run example_engine (overlapping ?fa ?fb ?okA ?okB)) =
      \<lparr> loading = False, result = JObj [(''summary'', JStr ''A'')], error = JNull \<rparr>"
    using n1 r1 e1 by (cases "app_state (run example_engine (overlapping ?fa ?fb ?okA ?okB))") simp
  have s2: "app_state (run example_engine (overlapping ?fa ?fb ?failA ?okB)) =
      \<lparr> loading = False, result = JObj [(''summary'', JStr ''B'')],
        error = JStr ''Failed to fetch'' \<rparr>"
    using n2 r2 e2
    by (cases "app_state (run example_engine (overlapping ?fa ?fb ?failA ?okB))") simp
  show ?thesis
    unfolding s1 s2 a1 a2 by simp
qed

section \<open>The risk flag\<close>

text \<open>
  Claim C9, as stated, fails: with \<open>risk_analysis.risk_detected\<close> absent the risk text
  is \<open>undefined\<close>, not \<open>false\<close>.
\<close>

theorem absent_risk_flag_renders_undefined:
  "ResultCard example_engine
     (JObj [(''summary'', JStr ''All good''), (''risk_analysis'', JObj [])]) =
     Inr (Some \<lparr> input_type_child = JUndefined, summary_child = JStr ''All good'',
                 risk_detected_text = ''undefined'', call_outcome_child = JUndefined,
                 graph = \<lparr> labels = [''Risk Score''], dataset_label = ''Risk (%)'',
                           dataset_data = [Fin 0], x_min = 0, x_max = 100,
                           title_text = ''Risk score: 0%'' \<rparr> \<rparr>) \<and>
   ''undefined'' \<noteq> ''false''"
  by (simp add: eval_card eval_binary64)

text \<open>
  Claim C9, amended. In every card that \<open>ResultCard\<close> returns, the risk text is
  \<open>String(risk_analysis.risk_detected)\<close>, so it is never left out: \<open>true\<close> or
  \<open>false\<close> for a boolean, and \<open>undefined\<close> when the flag is absent.
\<close>

theorem risk_flag_is_String_of_value:
  assumes "ResultCard e data = Inr (Some c)"
    and "get_prop e data ''risk_analysis'' = Inr ra"
    and "get_prop e (default_to (JObj []) ra) ''risk_detected'' = Inr rd"
    and "rd \<in> {JBool True, JBool False, JUndefined}"
  shows "risk_detected_text c =
     (if rd = JBool True then ''true'' else if rd = JBool False then ''false'' else ''undefined'')"
  using assms(4) ResultCard_risk_text [OF assms(1-3)] by auto

theorem risk_flag_is_String_of_value_witness:
  "ResultCard example_engine (JObj [(''risk_analysis'', JObj [(''risk_detected'', JBool False)])]) =
     Inr (Some \<lparr> input_type_child = JUndefined, summary_child = JStr [],
                 risk_detected_text = ''false'', call_outcome_child = JUndefined,
                 graph = \<lparr> labels = [''Risk Score''], dataset_label = ''Risk (%)'',
                           dataset_data = [Fin 0], x_min = 0, x_max = 100,
                           title_text = ''Risk score: 0%'' \<rparr> \<rparr>) \<and>
   JBool False \<in> {JBool True, JBool False, JUndefined} \<and>
   ''false'' = (if JBool False = JBool True then ''true''
                else if JBool False = JBool False then ''false'' else ''undefined'')"
proof -
  let ?E = example_engine
  let ?ra = "JObj [(''risk_detected'', JBool False)]"
  let ?c = "\<lparr> input_type_child = JUndefined, summary_child = JStr [],
                 risk_detected_text = ''false'', call_outcome_child = JUndefined,
                 graph = \<lparr> labels = [''Risk Score''], dataset_label = ''Risk (%)'',
                           dataset_data = [Fin 0], x_min = 0, x_max = 100,
                           title_text = ''Risk score: 0%'' \<rparr> \<rparr>"
  have c: "ResultCard ?E (JObj [(''risk_analysis'', ?ra)]) = Inr (Some ?c)"
    by (simp add: eval_card eval_binary64)
  have top: "get_prop ?E (JObj [(''risk_analysis'', ?ra)]) ''risk_analysis'' = Inr ?ra"
    by simp
  have n: "get_prop ?E (default_to (JObj []) ?ra) ''risk_detected'' = Inr (JBool False)"
    by (simp add: default_to_def)
  have m: "JBool False \<in> {JBool True, JBool False, JUndefined}"
    by simp
  have t: "''false'' = (if JBool False = JBool True then ''true''
                else if JBool False = JBool False then ''false'' else ''undefined'')"
    using risk_flag_is_String_of_value [OF c top n m] by (simp only: card.simps)
  from c m t show ?thesis by blast
qed

section \<open>An error reported in a successful response\<close>

text \<open>
  Claim C10. When the response has a success status and its parsed body has a truthy
  \<open>error\<close> property, the second turn of \<open>handleSubmit\<close> calls \<open>onError\<close> with that
  value and nothing else, whatever the callbacks are. After a submission that started
  with \<open>onStart\<close>, \<open>App\<close> holds the value as its error and no report, and the
  result slot shows nothing.
\<close>

theorem error_field_completes_as_failure:
  assumes "ok res" and "json_result res = Inr data"
    and "get_prop e data ''error'' = Inr v" and "truthy v"
  shows "(\<forall>p s. handleSubmit_resume e p (Resolved res) s = call1 (onError p) v s) \<and>
     handleSubmit_resume e App_callbacks (Resolved res) (App_onStart s0) =
       \<lparr> loading = False, result = JNull, error = v \<rparr> \<and>
     result_slot (App_render e
         (handleSubmit_resume e App_callbacks (Resolved res) (App_onStart s0))) =
       Skipped JNull"
proof -
  note r = resume_error_field [OF assms]
  have a: "handleSubmit_resume e App_callbacks (Resolved res) (App_onStart s0) =
       \<lparr> loading = False, result = JNull, error = v \<rparr>"
    unfolding r by (simp add: call1_def App_callbacks_def App_onError_def App_onStart_def)
  have v: "result_slot (App_render e
      (handleSubmit_resume e App_callbacks (Resolved res) (App_onStart s0))) = Skipped JNull"
    unfolding a by (simp add: App_render_def)
  from r a v show ?thesis by blast
qed

theorem error_field_completes_as_failure_witness:
  "ok \<lparr> status = 200, text_result = Inr ''{\"error\": \"unsupported file\"}'',
        json_result = Inr (JObj [(''error'', JStr ''unsupported file'')]) \<rparr> \<and>
   truthy (JStr ''unsupported file'') \<and>
   handleSubmit_resume example_engine App_callbacks
     (Resolved \<lparr> status = 200, text_result = Inr ''{\"error\": \"unsupported file\"}'',
        json_result = Inr (JObj [(''error'', JStr ''unsupported file'')]) \<rparr>)
     (App_onStart App_init) =
       \<lparr> loading = False, result = JNull, error = JStr ''unsupported file'' \<rparr>"
proof -
  let ?data = "JObj [(''error'', JStr ''unsupported file'')]"
  let ?res = "\<lparr> status = 200, text_result = Inr ''{\"error\": \"unsupported file\"}'',
        json_result = Inr ?data \<rparr>"
  have h1: "ok ?res" by (simp add: ok_def)
  have h2: "json_result ?res = Inr ?data" by simp
  have h3: "get_prop example_engine ?data ''error'' = Inr (JStr ''unsupported file'')" by simp
  have h4: "truthy (JStr ''unsupported file'')" by simp
  from error_field_completes_as_failure [OF h1 h2 h3 h4, of App_init]
  show ?thesis using h1 h4 by blast
qed

end
